theory Spec2Isabelle
  imports Main "HOL-Library.Word"
begin

section \<open>Errors and dynamically typed arguments\<close>

text \<open>
  The driver reports failures in three ways: sentinel errors (\<open>driver.ErrSkip\<close>,
  \<open>io.EOF\<close>, \<open>errInvalidType\<close>, \<open>errCouldNotBind\<close>), errors built from a message
  (\<open>errors.New\<close>, \<open>fmt.Errorf\<close>), and panics (explicit \<open>panic(msg)\<close> and the
  run-time panics of Go). Each is a value here.
\<close>

datatype error =
    ErrSkip
  | EOF
  | errInvalidType
  | errCouldNotBind
  | Errorf string
  | Panic string

text \<open>
  A \<open>driver.Value\<close> handed to the driver is an \<open>interface{}\<close>: the dynamic type is
  the constructor. Fixed-width integers are words; a \<open>float64\<close> and a \<open>float32\<close>
  are their IEEE bit patterns; a \<open>time.Time\<close> is the instant it denotes, as seconds
  since the Unix epoch and nanoseconds within the second. \<open>VBytes\<close>, \<open>VFloat32\<close>
  and \<open>VUint64\<close> stand for the dynamic types that no switch of the driver names.
\<close>

datatype gotime = GoTime (unix_sec: int) (nano: nat)

datatype arg =
    VNil
  | VInt8 "8 word"
  | VInt16 "16 word"
  | VInt32 "32 word"
  | VInt64 "64 word"
  | VFloat64 "64 word"
  | VBool bool
  | VTime gotime
  | VString string
  | VBytes "8 word list"
  | VFloat32 "32 word"
  | VUint64 "64 word"

text \<open>\<open>int64(x)\<close> and \<open>int(x)\<close> of an integer outside the signed 64-bit range wrap.\<close>

definition wrap64 :: "int \<Rightarrow> int" where
  "wrap64 x = (x + 2 ^ 63) mod 2 ^ 64 - 2 ^ 63"

section \<open>Decimal text (\<open>strconv.AppendInt\<close> in base 10)\<close>

definition digit :: "nat \<Rightarrow> char" where
  "digit d = ''0123456789'' ! d"

function dec_nat :: "nat \<Rightarrow> string" where
  "dec_nat n = (if n < 10 then [digit n] else dec_nat (n div 10) @ [digit (n mod 10)])"
  by pat_completeness auto
termination
  by (relation "measure (\<lambda>n. n)") auto

declare dec_nat.simps [simp del]

definition FormatInt :: "int \<Rightarrow> string" where
  "FormatInt x = (if x < 0 then CHR ''-'' # dec_nat (nat (- x)) else dec_nat (nat x))"

section \<open>The escaper\<close>

abbreviation bslash :: char where "bslash \<equiv> CHR 0x5C"
abbreviation squote :: char where "squote \<equiv> CHR 0x27"
abbreviation dquote :: char where "dquote \<equiv> CHR 0x22"
abbreviation qmark :: char where "qmark \<equiv> CHR ''?''"

text \<open>
  One iteration of the loop of \<open>escapeValue\<close>: what is written to the buffer for
  the byte \<open>c\<close>. The Go literal \<open>"\\\\0"\<close> is the three bytes backslash, backslash,
  \<open>0\<close>; \<open>"\\\""\<close> is backslash, double quote; \<open>"\\\\"\<close> is two backslashes.
\<close>

definition escapeByte :: "char \<Rightarrow> string" where
  "escapeByte c =
     (if c = CHR 0x00 then [bslash, bslash, CHR ''0'']
      else if c = CHR 0x0A then [bslash, bslash, CHR ''n'']
      else if c = CHR 0x0D then [bslash, bslash, CHR ''r'']
      else if c = CHR 0x1A then [bslash, bslash, CHR ''Z'']
      else if c = squote then [bslash, bslash, squote]
      else if c = dquote then [bslash, dquote]
      else if c = bslash then [bslash, bslash]
      else [c])"

primrec escapeValue :: "string \<Rightarrow> string" where
  "escapeValue [] = []"
| "escapeValue (c # v) = escapeByte c @ escapeValue v"

section \<open>The interpolator\<close>

text \<open>
  \<open>strings.Count(query, "?")\<close> and \<open>strings.IndexByte(s, c)\<close>; the latter returns
  \<open>-1\<close> when the byte does not occur, which is \<open>None\<close> here.
\<close>

definition Count :: "string \<Rightarrow> nat" where
  "Count s = length (filter (\<lambda>c. c = qmark) s)"

fun IndexByte :: "string \<Rightarrow> char \<Rightarrow> nat option" where
  "IndexByte [] c = None"
| "IndexByte (x # xs) c =
     (if x = c then Some 0 else map_option Suc (IndexByte xs c))"

text \<open>
  The body of the loop after the placeholder is found: the nil test and the type
  switch of \<open>interpolateParams\<close>. The result is the text appended to the buffer,
  or \<open>None\<close> for the \<open>default\<close> branch. \<open>strconv.AppendFloat(buf, v, 'g', -1, 64)\<close>
  is the parameter \<open>F\<close>, a function of the bit pattern of the float.
\<close>

fun literal :: "(64 word \<Rightarrow> string) \<Rightarrow> arg \<Rightarrow> string option" where
  "literal F VNil = Some ''NULL''"
| "literal F (VInt8 v) = Some (FormatInt (sint v))"
| "literal F (VInt16 v) = Some (FormatInt (sint v))"
| "literal F (VInt32 v) = Some (FormatInt (sint v))"
| "literal F (VInt64 v) = Some (FormatInt (sint v))"
| "literal F (VFloat64 v) = Some (F v)"
| "literal F (VBool v) = Some (if v then ''1'' else ''0'')"
| "literal F (VTime v) = Some (FormatInt (wrap64 (unix_sec v)))"
| "literal F (VString v) = Some ([squote] @ escapeValue v @ [squote])"
| "literal F _ = None"

text \<open>
  The \<open>for\<close> loop of \<open>interpolateParams\<close>, from index \<open>i\<close> with buffer \<open>buf\<close> and
  \<open>argPos\<close> arguments consumed. It returns the buffer and \<open>argPos\<close> at the exit of
  the loop. \<open>args[argPos]\<close> beyond the slice is Go's index panic.
\<close>

function interp_loop ::
  "(64 word \<Rightarrow> string) \<Rightarrow> string \<Rightarrow> arg list \<Rightarrow> nat \<Rightarrow> string \<Rightarrow> nat \<Rightarrow> error + string \<times> nat"
where
  "interp_loop F query args i buf argPos =
     (if i < length query then
        (case IndexByte (drop i query) qmark of
           None \<Rightarrow> Inr (buf @ drop i query, argPos)
         | Some q \<Rightarrow>
             (if argPos < length args then
                (case literal F (args ! argPos) of
                   None \<Rightarrow> Inl ErrSkip
                 | Some lit \<Rightarrow>
                     interp_loop F query args (i + q + 1)
                       (buf @ take q (drop i query) @ lit) (argPos + 1))
              else Inl (Panic ''index out of range'')))
      else Inr (buf, argPos))"
  by pat_completeness auto
termination
  by (relation "measure (\<lambda>(F, query, args, i, buf, argPos). length query - i)") auto

declare interp_loop.simps [simp del]

definition interpolateParams ::
  "(64 word \<Rightarrow> string) \<Rightarrow> string \<Rightarrow> arg list \<Rightarrow> error + string"
where
  "interpolateParams F query args =
     (if Count query \<noteq> length args then Inl ErrSkip
      else
        (case interp_loop F query args 0 [] 0 of
           Inl e \<Rightarrow> Inl e
         | Inr (buf, argPos) \<Rightarrow>
             (if argPos \<noteq> length args then Inl ErrSkip else Inr buf)))"

text \<open>
  The kinds for which the interpolator has a rule: the eight cases of its type
  switch and \<open>nil\<close>.
\<close>

definition supported :: "arg \<Rightarrow> bool" where
  "supported a =
     (case a of VBytes _ \<Rightarrow> False | VFloat32 _ \<Rightarrow> False | VUint64 _ \<Rightarrow> False | _ \<Rightarrow> True)"

text \<open>
  The number of \<open>?\<close> bytes in the text written for an argument: the integer, boolean,
  time and \<open>NULL\<close> texts have none.
\<close>

definition qmarks :: "(64 word \<Rightarrow> string) \<Rightarrow> arg \<Rightarrow> nat" where
  "qmarks F a = (case a of VString v \<Rightarrow> Count v | VFloat64 w \<Rightarrow> Count (F w) | _ \<Rightarrow> 0)"

text \<open>
  Reference for the interpolator: the query with its placeholders replaced, from left
  to right, by the texts of \<open>ls\<close>, every other byte kept. It is compared with
  \<open>interpolateParams\<close> below.
\<close>

fun spec_substitute :: "string \<Rightarrow> string list \<Rightarrow> string" where
  "spec_substitute [] ls = []"
| "spec_substitute (c # cs) ls =
     (if c = qmark then
        (case ls of [] \<Rightarrow> c # spec_substitute cs [] | l # ls' \<Rightarrow> l @ spec_substitute cs ls')
      else c # spec_substitute cs ls)"

text \<open>
  Reference for a single-quoted string literal. \<open>spec_closing_bs body\<close> is the position,
  in the text after the opening quote, of the quote that ends the literal when a
  backslash escapes the byte after it (the convention \<open>escapeValue\<close> writes for);
  \<open>spec_closing_sql\<close> is the same for standard SQL, where a backslash is an ordinary byte
  and a quote is written by doubling it. A fragment is a valid literal when it opens
  with a quote and the literal ends at its last byte.
\<close>

fun spec_closing_bs :: "string \<Rightarrow> nat option" where
  "spec_closing_bs [] = None"
| "spec_closing_bs [c] = (if c = squote then Some 0 else None)"
| "spec_closing_bs (c # d # cs) =
     (if c = squote then Some 0
      else if c = bslash then map_option (\<lambda>n. n + 2) (spec_closing_bs cs)
      else map_option Suc (spec_closing_bs (d # cs)))"

fun spec_closing_sql :: "string \<Rightarrow> nat option" where
  "spec_closing_sql [] = None"
| "spec_closing_sql [c] = (if c = squote then Some 0 else None)"
| "spec_closing_sql (c # d # cs) =
     (if c = squote then
        (if d = squote then map_option (\<lambda>n. n + 2) (spec_closing_sql cs) else Some 0)
      else map_option Suc (spec_closing_sql (d # cs)))"

definition spec_valid_literal :: "(string \<Rightarrow> nat option) \<Rightarrow> string \<Rightarrow> bool" where
  "spec_valid_literal closing s =
     (case s of [] \<Rightarrow> False
      | q # body \<Rightarrow> q = squote \<and> closing body = Some (length body - 1))"

section \<open>The native result and the cursor\<close>

text \<open>
  The type tags of \<open>duckdb.h\<close> that the driver names; \<open>DUCKDB_TYPE_OTHER n\<close> is any
  other tag of the header.
\<close>

datatype DUCKDB_TYPE =
    DUCKDB_TYPE_INVALID
  | DUCKDB_TYPE_BOOLEAN
  | DUCKDB_TYPE_TINYINT
  | DUCKDB_TYPE_SMALLINT
  | DUCKDB_TYPE_INTEGER
  | DUCKDB_TYPE_BIGINT
  | DUCKDB_TYPE_FLOAT
  | DUCKDB_TYPE_DOUBLE
  | DUCKDB_TYPE_TIMESTAMP
  | DUCKDB_TYPE_DATE
  | DUCKDB_TYPE_VARCHAR
  | DUCKDB_TYPE_OTHER nat

text \<open>
  What \<open>Next\<close> stores in \<open>dst\<close>. \<open>DTime y mo d h mi s ns\<close> is
  \<open>time.Date(y, mo, d, h, mi, s, ns, time.UTC)\<close>, kept as its arguments.
\<close>

datatype dval =
    DNil
  | DBool bool
  | DInt8 "8 word"
  | DInt16 "16 word"
  | DInt32 "32 word"
  | DInt64 "64 word"
  | DFloat32 "32 word"
  | DFloat64 "64 word"
  | DString string
  | DTime int int int int int int int

text \<open>
  A column of a \<open>duckdb_result\<close>: its name, its tag, and its data buffer. The driver
  reads the buffer through a cast of the data pointer to an array of a host type, so
  the buffer is given by what each cast reads at an index: \<open>col_bool c k\<close> is
  \<open>(*[1 << 31]bool)(colData)[k]\<close>, and so on. \<open>col_date\<close> and \<open>col_timestamp\<close>
  include \<open>duckdb_from_date\<close> and \<open>duckdb_from_timestamp\<close> (year, month, day, and
  hour, minute, second, microseconds); \<open>col_varchar\<close> includes \<open>C.GoString\<close>.
\<close>

record column =
  col_name :: string
  col_type :: DUCKDB_TYPE
  col_bool :: "nat \<Rightarrow> bool"
  col_int8 :: "nat \<Rightarrow> 8 word"
  col_int16 :: "nat \<Rightarrow> 16 word"
  col_int32 :: "nat \<Rightarrow> 32 word"
  col_int64 :: "nat \<Rightarrow> 64 word"
  col_float :: "nat \<Rightarrow> 32 word"
  col_double :: "nat \<Rightarrow> 64 word"
  col_date :: "nat \<Rightarrow> int \<times> int \<times> int"
  col_varchar :: "nat \<Rightarrow> string"
  col_timestamp :: "nat \<Rightarrow> (int \<times> int \<times> int) \<times> (int \<times> int \<times> int \<times> int)"

text \<open>
  \<open>row_count\<close> is \<open>duckdb_row_count\<close>, \<open>cols\<close> the columns in native order, and
  \<open>value_int64\<close> what \<open>duckdb_value_int64(res, 0, 0)\<close> returns.
\<close>

record duckdb_result =
  row_count :: nat
  cols :: "column list"
  value_int64 :: "64 word"

record duckdbResult =
  ra :: "64 word"

text \<open>
  \<open>duckdbRows\<close>: \<open>rows_r\<close> is the field \<open>r\<close> (\<open>None\<close> is \<open>nil\<close>), \<open>rows_s\<close> the
  field \<open>s\<close>, a pointer to the statement that produced the rows (an address of the
  heap of statements below), \<open>cursor\<close> the \<open>int64\<close> row offset.
\<close>

record duckdbRows =
  rows_r :: "duckdb_result option"
  rows_s :: "nat option"
  cursor :: int

text \<open>
  The cases of the switch of \<open>Next\<close> that store a value, for the column \<open>c\<close> at row
  offset \<open>k\<close>; \<open>None\<close> when the tag matches no case (the switch has no default).
\<close>

definition decode :: "column \<Rightarrow> nat \<Rightarrow> dval option" where
  "decode c k =
     (case col_type c of
        DUCKDB_TYPE_BOOLEAN \<Rightarrow> Some (DBool (col_bool c k))
      | DUCKDB_TYPE_TINYINT \<Rightarrow> Some (DInt8 (col_int8 c k))
      | DUCKDB_TYPE_SMALLINT \<Rightarrow> Some (DInt16 (col_int16 c k))
      | DUCKDB_TYPE_INTEGER \<Rightarrow> Some (DInt32 (col_int32 c k))
      | DUCKDB_TYPE_BIGINT \<Rightarrow> Some (DInt64 (col_int64 c k))
      | DUCKDB_TYPE_FLOAT \<Rightarrow> Some (DFloat32 (col_float c k))
      | DUCKDB_TYPE_DOUBLE \<Rightarrow> Some (DFloat64 (col_double c k))
      | DUCKDB_TYPE_DATE \<Rightarrow>
          (case col_date c k of (y, mo, d) \<Rightarrow> Some (DTime y mo d 0 0 0 0))
      | DUCKDB_TYPE_VARCHAR \<Rightarrow> Some (DString (col_varchar c k))
      | DUCKDB_TYPE_TIMESTAMP \<Rightarrow>
          (case col_timestamp c k of
             ((y, mo, d), (h, mi, sec, micros)) \<Rightarrow> Some (DTime y mo d h mi sec micros))
      | _ \<Rightarrow> None)"

text \<open>
  The column loop of \<open>Next\<close> from column index \<open>i\<close>, at row offset \<open>cur\<close>. The tag
  \<open>DUCKDB_TYPE_INVALID\<close> returns \<open>errInvalidType\<close>; a tag with a case stores the
  decoded value in \<open>dst[i]\<close>; any other tag falls through the switch. Indexing the
  \<open>[1 << 31]\<close> array outside its bounds and \<open>dst\<close> outside its length panic.
\<close>

fun next_cols :: "column list \<Rightarrow> nat \<Rightarrow> int \<Rightarrow> dval list \<Rightarrow> error option \<times> dval list" where
  "next_cols [] i cur dst = (None, dst)"
| "next_cols (c # cs) i cur dst =
     (if col_type c = DUCKDB_TYPE_INVALID then (Some errInvalidType, dst)
      else
        (case decode c (nat cur) of
           None \<Rightarrow> next_cols cs (Suc i) cur dst
         | Some v \<Rightarrow>
             (if cur < 0 \<or> 2 ^ 31 \<le> cur then (Some (Panic ''index out of range''), dst)
              else if length dst \<le> i then (Some (Panic ''index out of range''), dst)
              else next_cols cs (Suc i) cur (dst[i := v]))))"

definition Next :: "duckdbRows \<Rightarrow> dval list \<Rightarrow> error option \<times> duckdbRows \<times> dval list" where
  "Next r dst =
     (case rows_r r of
        None \<Rightarrow>
          (Some (Panic ''database/sql/driver: misuse of duckdb driver: Next of closed rows''),
           r, dst)
      | Some res \<Rightarrow>
          (if cursor r \<ge> wrap64 (int (row_count res)) then (Some EOF, r, dst)
           else
             (case next_cols (cols res) 0 (cursor r) dst of
                (Some e, dst') \<Rightarrow> (Some e, r, dst')
              | (None, dst') \<Rightarrow> (None, r\<lparr>cursor := wrap64 (cursor r + 1)\<rparr>, dst'))))"


text \<open>The tags of the decode table: those with a case in the switch of \<open>Next\<close>.\<close>

definition decodable :: "column \<Rightarrow> bool" where
  "decodable c =
     (col_type c \<in> {DUCKDB_TYPE_BOOLEAN, DUCKDB_TYPE_TINYINT, DUCKDB_TYPE_SMALLINT,
        DUCKDB_TYPE_INTEGER, DUCKDB_TYPE_BIGINT, DUCKDB_TYPE_FLOAT, DUCKDB_TYPE_DOUBLE,
        DUCKDB_TYPE_DATE, DUCKDB_TYPE_TIMESTAMP, DUCKDB_TYPE_VARCHAR})"




section \<open>The native prepared statement and the engine\<close>

text \<open>
  The typed bind calls of \<open>duckdb.h\<close> that \<open>start\<close> makes, with the parameter index
  and the value passed.
\<close>

datatype bind_call =
    duckdb_bind_int8 nat "8 word"
  | duckdb_bind_int16 nat "16 word"
  | duckdb_bind_int32 nat "32 word"
  | duckdb_bind_int64 nat "64 word"
  | duckdb_bind_double nat "64 word"
  | duckdb_bind_boolean nat bool
  | duckdb_bind_timestamp nat int
  | duckdb_bind_varchar nat string

text \<open>
  A \<open>duckdb_prepared_statement\<close> as the driver sees it: \<open>nparams\<close> is what
  \<open>duckdb_nparams\<close> reports, \<open>binds\<close> the bind calls made on the handle so far, in
  order, and \<open>destroyed\<close> whether \<open>duckdb_destroy_prepare\<close> was called.
\<close>

record prepared =
  nparams :: nat
  binds :: "bind_call list"
  destroyed :: bool

text \<open>
  The engine is a parameter: the answers of the native calls. A failed call
  (\<open>DuckDBError\<close>) is \<open>Inl\<close> with the text of \<open>duckdb_result_error\<close>, or \<open>False\<close> for
  the calls that return a state only.
\<close>

record engine =
  duckdb_query :: "string \<Rightarrow> string + duckdb_result"
  duckdb_prepare :: "string \<Rightarrow> bool \<times> prepared"
  duckdb_bind :: "prepared \<Rightarrow> bind_call \<Rightarrow> bool"
  duckdb_execute_prepared :: "prepared \<Rightarrow> string + duckdb_result"

section \<open>Statements\<close>

text \<open>
  \<open>stmt\<close>: \<open>handle\<close> is the field \<open>stmt\<close>. The mutex is left out: every operation
  runs to its end under it. Statements live in a heap, a list indexed by address,
  because a \<open>duckdbRows\<close> keeps a pointer to its statement and clears the statement's
  \<open>rows\<close> flag through it.
\<close>

record stmt =
  handle :: prepared
  closed :: bool
  rows :: bool

type_synonym heap = "stmt list"

definition deref :: "heap \<Rightarrow> nat \<Rightarrow> stmt option" where
  "deref h a = (if a < length h then Some (h ! a) else None)"

abbreviation nil_deref :: error where
  "nil_deref \<equiv> Panic ''invalid memory address or nil pointer dereference''"

definition NumInput :: "stmt \<Rightarrow> int" where
  "NumInput st = wrap64 (int (nparams (handle st)))"

text \<open>
  The type switch of \<open>start\<close> for the argument at position \<open>i\<close> of the slice: the
  bind call made, or \<open>None\<close> for the \<open>default\<close> branch, which \<open>nil\<close> takes too.
\<close>

fun bind_of :: "nat \<Rightarrow> arg \<Rightarrow> bind_call option" where
  "bind_of i (VInt8 v) = Some (duckdb_bind_int8 (i + 1) v)"
| "bind_of i (VInt16 v) = Some (duckdb_bind_int16 (i + 1) v)"
| "bind_of i (VInt32 v) = Some (duckdb_bind_int32 (i + 1) v)"
| "bind_of i (VInt64 v) = Some (duckdb_bind_int64 (i + 1) v)"
| "bind_of i (VFloat64 v) = Some (duckdb_bind_double (i + 1) v)"
| "bind_of i (VBool v) = Some (duckdb_bind_boolean (i + 1) v)"
| "bind_of i (VTime v) =
     Some (duckdb_bind_timestamp (i + 1) (wrap64 (unix_sec v * 1000000 + int (nano v div 1000))))"
| "bind_of i (VString v) = Some (duckdb_bind_varchar (i + 1) v)"
| "bind_of i _ = None"

text \<open>The \<open>range\<close> loop of \<open>start\<close>, from position \<open>i\<close>.\<close>

fun bind_args :: "engine \<Rightarrow> stmt \<Rightarrow> nat \<Rightarrow> arg list \<Rightarrow> error option \<times> stmt" where
  "bind_args E st i [] = (None, st)"
| "bind_args E st i (v # vs) =
     (case bind_of i v of
        None \<Rightarrow> (Some ErrSkip, st)
      | Some c \<Rightarrow>
          (if duckdb_bind E (handle st) c
           then bind_args E (st\<lparr>handle := (handle st)\<lparr>binds := binds (handle st) @ [c]\<rparr>\<rparr>) (Suc i) vs
           else (Some errCouldNotBind,
                 st\<lparr>handle := (handle st)\<lparr>binds := binds (handle st) @ [c]\<rparr>\<rparr>)))"

text \<open>
  \<open>fmt.Errorf("incorrect argument count for command: have %d want %d", have, want)\<close>.
\<close>

definition errArgCount :: "int \<Rightarrow> int \<Rightarrow> error" where
  "errArgCount have want =
     Errorf (''incorrect argument count for command: have '' @ FormatInt have @
             '' want '' @ FormatInt want)"

definition start :: "engine \<Rightarrow> stmt \<Rightarrow> arg list \<Rightarrow> error option \<times> stmt" where
  "start E st args =
     (if NumInput st \<noteq> int (length args) then
        (Some (errArgCount (int (length args)) (NumInput st)), st)
      else bind_args E st 0 args)"

definition stmt_Close :: "nat \<Rightarrow> heap \<Rightarrow> error option \<times> heap" where
  "stmt_Close a h =
     (case deref h a of
        None \<Rightarrow> (Some nil_deref, h)
      | Some st \<Rightarrow>
          (if rows st then
             (Some (Errorf ''database/sql/driver: misuse of duckdb driver: Close with active Rows''), h)
           else if closed st then
             (Some (Errorf ''database/sql/driver: misuse of duckdb driver: double Close of Stmt''), h)
           else
             (None, h[a := st\<lparr>closed := True, handle := (handle st)\<lparr>destroyed := True\<rparr>\<rparr>])))"

definition stmt_Exec :: "engine \<Rightarrow> nat \<Rightarrow> heap \<Rightarrow> arg list \<Rightarrow> (error + duckdbResult) \<times> heap" where
  "stmt_Exec E a h args =
     (case deref h a of
        None \<Rightarrow> (Inl nil_deref, h)
      | Some st \<Rightarrow>
          (if closed st then
             (Inl (Panic ''database/sql/driver: misuse of duckdb driver: Exec after Close''), h)
           else if rows st then
             (Inl (Panic ''database/sql/driver: misuse of duckdb driver: Exec with active Rows''), h)
           else
             (case start E st args of
                (Some err, st') \<Rightarrow> (Inl err, h[a := st'])
              | (None, st') \<Rightarrow>
                  (case duckdb_execute_prepared E (handle st') of
                     Inl msg \<Rightarrow> (Inl (Errorf msg), h[a := st'])
                   | Inr res \<Rightarrow> (Inr \<lparr>ra = value_int64 res\<rparr>, h[a := st'])))))"

definition stmt_Query :: "engine \<Rightarrow> nat \<Rightarrow> heap \<Rightarrow> arg list \<Rightarrow> (error + duckdbRows) \<times> heap" where
  "stmt_Query E a h args =
     (case deref h a of
        None \<Rightarrow> (Inl nil_deref, h)
      | Some st \<Rightarrow>
          (if closed st then
             (Inl (Panic ''database/sql/driver: misuse of duckdb driver: Query after Close''), h)
           else if rows st then
             (Inl (Panic ''database/sql/driver: misuse of duckdb driver: Query with active Rows''), h)
           else
             (case start E st args of
                (Some err, st') \<Rightarrow> (Inl err, h[a := st'])
              | (None, st') \<Rightarrow>
                  (case duckdb_execute_prepared E (handle st') of
                     Inl msg \<Rightarrow> (Inl (Errorf msg), h[a := st'\<lparr>rows := True\<rparr>])
                   | Inr res \<Rightarrow>
                       (Inr \<lparr>rows_r = Some res, rows_s = Some a, cursor = 0\<rparr>,
                        h[a := st'\<lparr>rows := True\<rparr>])))))"

text \<open>\<open>duckdbRows.Close\<close>; the statement is reached through the pointer \<open>rows_s\<close>.\<close>

definition rows_Close :: "duckdbRows \<Rightarrow> heap \<Rightarrow> error option \<times> duckdbRows \<times> heap" where
  "rows_Close r h =
     (case rows_r r of
        None \<Rightarrow>
          (Some (Panic ''database/sql/driver: misuse of duckdb driver: Close of already closed rows''),
           r, h)
      | Some res \<Rightarrow>
          (case rows_s r of
             None \<Rightarrow> (None, r\<lparr>rows_r := None\<rparr>, h)
           | Some a \<Rightarrow>
               (case deref h a of
                  None \<Rightarrow> (Some nil_deref, r\<lparr>rows_r := None\<rparr>, h)
                | Some st \<Rightarrow>
                    (None, r\<lparr>rows_r := None, rows_s := None\<rparr>, h[a := st\<lparr>rows := False\<rparr>]))))"

section \<open>The connection\<close>

text \<open>
  The native connection is represented by \<open>sent\<close>, the commands passed to
  \<open>duckdb_query\<close> on it, oldest first.
\<close>

record conn =
  sent :: "string list"

definition conn_exec :: "engine \<Rightarrow> conn \<Rightarrow> string \<Rightarrow> (error + duckdb_result) \<times> conn" where
  "conn_exec E c cmd =
     (case duckdb_query E cmd of
        Inl msg \<Rightarrow> (Inl (Errorf msg), c\<lparr>sent := sent c @ [cmd]\<rparr>)
      | Inr res \<Rightarrow> (Inr res, c\<lparr>sent := sent c @ [cmd]\<rparr>))"

definition conn_Exec :: "engine \<Rightarrow> conn \<Rightarrow> string \<Rightarrow> arg list \<Rightarrow> (error + duckdbResult) \<times> conn" where
  "conn_Exec E c query args =
     (case conn_exec E c query of
        (Inl err, c') \<Rightarrow> (Inl err, c')
      | (Inr res, c') \<Rightarrow> (Inr \<lparr>ra = value_int64 res\<rparr>, c'))"

definition conn_query ::
  "engine \<Rightarrow> (64 word \<Rightarrow> string) \<Rightarrow> conn \<Rightarrow> string \<Rightarrow> arg list \<Rightarrow> (error + duckdbRows) \<times> conn"
where
  "conn_query E F c query args =
     (case interpolateParams F query args of
        Inl err \<Rightarrow> (Inl err, c)
      | Inr queryStr \<Rightarrow>
          (case conn_exec E c queryStr of
             (Inl err, c') \<Rightarrow> (Inl err, c')
           | (Inr res, c') \<Rightarrow> (Inr \<lparr>rows_r = Some res, rows_s = None, cursor = 0\<rparr>, c')))"

definition conn_Query ::
  "engine \<Rightarrow> (64 word \<Rightarrow> string) \<Rightarrow> conn \<Rightarrow> string \<Rightarrow> arg list \<Rightarrow> (error + duckdbRows) \<times> conn"
where
  "conn_Query E F c query args = conn_query E F c query args"

text \<open>
  \<open>conn.Prepare\<close>: the status of \<open>duckdb_prepare\<close> is not read. The new statement
  is allocated at the end of the heap and its address returned.
\<close>

definition conn_Prepare :: "engine \<Rightarrow> string \<Rightarrow> heap \<Rightarrow> (error + nat) \<times> heap" where
  "conn_Prepare E cmd h =
     (case duckdb_prepare E cmd of
        (status, p) \<Rightarrow> (Inr (length h), h @ [\<lparr>handle = p, closed = False, rows = False\<rparr>]))"

section \<open>Concrete inputs\<close>

text \<open>
  Values at which the theorems below are evaluated: a float formatter, an empty
  result, an engine whose every call succeeds, one whose every call fails, and a
  statement just prepared with \<open>n\<close> parameters.
\<close>

definition fmt0 :: "64 word \<Rightarrow> string" where
  "fmt0 w = ''0''"

definition empty_result :: duckdb_result where
  "empty_result = \<lparr>row_count = 0, cols = [], value_int64 = 0\<rparr>"

definition new_prepared :: "nat \<Rightarrow> prepared" where
  "new_prepared n = \<lparr>nparams = n, binds = [], destroyed = False\<rparr>"

definition new_stmt :: "nat \<Rightarrow> stmt" where
  "new_stmt n = \<lparr>handle = new_prepared n, closed = False, rows = False\<rparr>"

definition engine_ok :: engine where
  "engine_ok =
     \<lparr>duckdb_query = (\<lambda>cmd. Inr empty_result),
      duckdb_prepare = (\<lambda>cmd. (True, new_prepared 0)),
      duckdb_bind = (\<lambda>p c. True),
      duckdb_execute_prepared = (\<lambda>p. Inr empty_result)\<rparr>"

definition engine_err :: engine where
  "engine_err =
     \<lparr>duckdb_query = (\<lambda>cmd. Inl ''syntax error''),
      duckdb_prepare = (\<lambda>cmd. (False, new_prepared 0)),
      duckdb_bind = (\<lambda>p c. False),
      duckdb_execute_prepared = (\<lambda>p. Inl ''syntax error'')\<rparr>"

text \<open>
  A column of a given tag whose buffer holds, at index \<open>k\<close>, the number \<open>k\<close> (as
  each integer and float type), the text of \<open>k\<close> letters \<open>x\<close>, and the \<open>k\<close>-th day
  and second after the epoch; a result of \<open>n\<close> rows over such columns; and the
  cursor that the direct path returns for a result.
\<close>

definition sample_col :: "DUCKDB_TYPE \<Rightarrow> column" where
  "sample_col t =
     \<lparr>col_name = ''c'', col_type = t,
      col_bool = (\<lambda>k. k = 0), col_int8 = of_nat, col_int16 = of_nat, col_int32 = of_nat,
      col_int64 = of_nat, col_float = of_nat, col_double = of_nat,
      col_date = (\<lambda>k. (1970, 1, 1 + int k)),
      col_varchar = (\<lambda>k. replicate k CHR ''x''),
      col_timestamp = (\<lambda>k. ((1970, 1, 1), (0, 0, int k, 0)))\<rparr>"

definition sample_result :: "DUCKDB_TYPE list \<Rightarrow> nat \<Rightarrow> duckdb_result" where
  "sample_result ts n = \<lparr>row_count = n, cols = map sample_col ts, value_int64 = 0\<rparr>"

definition open_rows :: "duckdb_result \<Rightarrow> duckdbRows" where
  "open_rows res = \<lparr>rows_r = Some res, rows_s = None, cursor = 0\<rparr>"



section \<open>Decimal text and escaping never write a placeholder\<close>

lemma Count_Nil: "Count [] = 0"
  by (simp add: Count_def)

lemma Count_append: "Count (a @ b) = Count a + Count b"
  by (simp add: Count_def)

lemma Count_Cons_qmark: "Count (qmark # s) = Suc (Count s)"
  by (simp add: Count_def)

lemma Count_Cons_other: "c \<noteq> qmark \<Longrightarrow> Count (c # s) = Count s"
  by (simp add: Count_def)

lemma Count_no_qmark: "qmark \<notin> set s \<Longrightarrow> Count s = 0"
  by (induction s) (auto simp: Count_def)

lemma Count_concat: "Count (concat ls) = sum_list (map Count ls)"
  by (induction ls) (simp_all add: Count_Nil Count_append)

lemma digit_not_qmark: "d < 10 \<Longrightarrow> qmark \<noteq> digit d"
proof -
  assume "d < 10"
  then have "digit d \<in> set ''0123456789''"
    unfolding digit_def by (intro nth_mem) simp
  then show ?thesis by auto
qed

lemma dec_nat_no_qmark: "qmark \<notin> set (dec_nat n)"
proof (induction n rule: dec_nat.induct)
  case (1 n)
  show ?case
  proof (cases "n < 10")
    case True
    then show ?thesis by (subst dec_nat.simps) (simp add: digit_not_qmark)
  next
    case False
    with 1 show ?thesis by (subst dec_nat.simps) (simp add: digit_not_qmark)
  qed
qed

lemma FormatInt_no_qmark: "Count (FormatInt x) = 0"
  by (simp add: FormatInt_def Count_no_qmark dec_nat_no_qmark Count_Cons_other)

lemma Count_escapeByte: "Count (escapeByte c) = Count [c]"
  by (simp add: escapeByte_def Count_def)

lemma Count_escapeValue: "Count (escapeValue v) = Count v"
proof (induction v)
  case Nil
  then show ?case by simp
next
  case (Cons c v)
  have "Count (c # v) = Count [c] + Count v"
    using Count_append[of "[c]" v] by simp
  with Cons show ?case by (simp add: Count_append Count_escapeByte)
qed

lemma literal_None: "literal F a = None \<longleftrightarrow> \<not> supported a"
  by (cases a) (simp_all add: supported_def)

lemma Count_literal: "supported a \<Longrightarrow> Count (the (literal F a)) = qmarks F a"
  by (cases a)
     (auto simp: qmarks_def supported_def FormatInt_no_qmark Count_append Count_escapeValue
        Count_Cons_other Count_Nil)

section \<open>The loop of the interpolator\<close>

lemma IndexByte_None: "IndexByte s c = None \<longleftrightarrow> c \<notin> set s"
  by (induction s) auto

lemma IndexByte_Some:
  "IndexByte s c = Some q \<Longrightarrow>
   s = take q s @ c # drop (Suc q) s \<and> c \<notin> set (take q s) \<and> q < length s"
proof (induction s arbitrary: q)
  case Nil
  then show ?case by simp
next
  case (Cons x xs)
  show ?case
  proof (cases "x = c")
    case True
    with Cons.prems show ?thesis by simp
  next
    case False
    with Cons.prems obtain q' where q': "IndexByte xs c = Some q'" "q = Suc q'"
      by auto
    from Cons.IH[OF q'(1)] q'(2) False show ?thesis by simp
  qed
qed

lemma drop_split:
  assumes "IndexByte (drop i query) qmark = Some q"
  shows "drop i query = take q (drop i query) @ qmark # drop (i + q + 1) query"
    and "qmark \<notin> set (take q (drop i query))"
proof -
  from IndexByte_Some[OF assms]
  have a: "drop i query = take q (drop i query) @ qmark # drop (Suc q) (drop i query)"
    and b: "qmark \<notin> set (take q (drop i query))"
    by auto
  have "drop (Suc q) (drop i query) = drop (i + q + 1) query"
    by (simp add: add.commute)
  with a show "drop i query = take q (drop i query) @ qmark # drop (i + q + 1) query"
    by simp
  from b show "qmark \<notin> set (take q (drop i query))" .
qed

lemma Count_drop_step:
  assumes "IndexByte (drop i query) qmark = Some q"
  shows "Count (drop i query) = Suc (Count (drop (i + q + 1) query))"
  by (subst drop_split(1)[OF assms])
     (simp add: Count_append Count_Cons_qmark Count_no_qmark[OF drop_split(2)[OF assms]])

lemma spec_substitute_no_qmark: "qmark \<notin> set s \<Longrightarrow> spec_substitute s ls = s"
  by (induction s) auto

lemma spec_substitute_prefix: "qmark \<notin> set p \<Longrightarrow> spec_substitute (p @ s) ls = p @ spec_substitute s ls"
  by (induction p) auto

lemma Count_spec_substitute:
  "Count s = length ls \<Longrightarrow> Count (spec_substitute s ls) = Count (concat ls)"
proof (induction s ls rule: spec_substitute.induct)
  case (1 ls)
  then show ?case by (simp add: Count_def)
next
  case (2 c cs ls)
  show ?case
  proof (cases "c = qmark")
    case False
    with 2 show ?thesis by (simp add: Count_Cons_other)
  next
    case True
    with "2.prems" obtain l ls' where ls: "ls = l # ls'"
      by (cases ls) (auto simp: Count_Cons_qmark)
    with True "2.prems" have "Count cs = length ls'"
      by (simp add: Count_Cons_qmark)
    with "2.IH"(2)[OF True ls] have "Count (spec_substitute cs ls') = Count (concat ls')"
      by simp
    with True ls show ?thesis by (simp add: Count_append)
  qed
qed

text \<open>
  The invariant of the loop: when the placeholders still ahead are as many as the
  arguments still unconsumed, and those arguments all have a rule, the loop ends with
  every argument consumed and the rest of the query substituted.
\<close>

lemma interp_loop_ok:
  "Count (drop i query) = length args - argPos \<Longrightarrow> argPos \<le> length args \<Longrightarrow>
   list_all supported (drop argPos args) \<Longrightarrow>
   interp_loop F query args i buf argPos =
     Inr (buf @ spec_substitute (drop i query) (map (\<lambda>a. the (literal F a)) (drop argPos args)),
          length args)"
proof (induction F query args i buf argPos rule: interp_loop.induct)
  case (1 F query args i buf argPos)
  show ?case
  proof (cases "i < length query")
    case False
    with "1.prems" have "argPos = length args" by (simp add: Count_def)
    with False show ?thesis by (simp add: interp_loop.simps)
  next
    case True
    show ?thesis
    proof (cases "IndexByte (drop i query) qmark")
      case None
      then have nq: "qmark \<notin> set (drop i query)" by (simp add: IndexByte_None)
      with "1.prems" have "argPos = length args" by (simp add: Count_no_qmark)
      with True None nq show ?thesis by (simp add: interp_loop.simps spec_substitute_no_qmark)
    next
      case (Some q)
      note sp = drop_split[OF Some]
      have cnt: "Count (drop i query) = Suc (Count (drop (i + q + 1) query))"
        by (rule Count_drop_step[OF Some])
      with "1.prems" have lt: "argPos < length args" by simp
      have dr: "drop argPos args = args ! argPos # drop (argPos + 1) args"
        using lt by (simp add: Cons_nth_drop_Suc)
      from "1.prems"(3) have sup: "supported (args ! argPos)"
        and rest: "list_all supported (drop (argPos + 1) args)"
        by (simp_all add: dr)
      then obtain lit where lit: "literal F (args ! argPos) = Some lit"
        using literal_None by (cases "literal F (args ! argPos)") auto
      have IH: "interp_loop F query args (i + q + 1) (buf @ take q (drop i query) @ lit) (argPos + 1) =
          Inr ((buf @ take q (drop i query) @ lit) @ spec_substitute (drop (i + q + 1) query)
            (map (\<lambda>a. the (literal F a)) (drop (argPos + 1) args)), length args)"
        using "1.IH"[OF True Some lt lit] cnt "1.prems" lt rest by simp
      have w: "spec_substitute (drop i query) (map (\<lambda>a. the (literal F a)) (drop argPos args)) =
          take q (drop i query) @ lit @ spec_substitute (drop (i + q + 1) query)
            (map (\<lambda>a. the (literal F a)) (drop (argPos + 1) args))"
        by (subst sp(1), subst dr) (simp add: spec_substitute_prefix[OF sp(2)] lit)
      show ?thesis
        using IH by (subst interp_loop.simps) (simp add: True Some lt lit w)
    qed
  qed
qed

text \<open>
  With as many placeholders ahead as arguments unconsumed, an argument without a rule
  at or after \<open>argPos\<close> is reached, unless the loop stopped before it for the same
  reason.
\<close>

lemma interp_loop_skip:
  "Count (drop i query) = length args - argPos \<Longrightarrow> argPos \<le> j \<Longrightarrow> j < length args \<Longrightarrow>
   \<not> supported (args ! j) \<Longrightarrow>
   interp_loop F query args i buf argPos = Inl ErrSkip"
proof (induction F query args i buf argPos rule: interp_loop.induct)
  case (1 F query args i buf argPos)
  from "1.prems" have pos: "0 < Count (drop i query)" by simp
  then have True: "i < length query"
    by (cases "i < length query") (simp_all add: Count_def)
  from pos obtain q where q: "IndexByte (drop i query) qmark = Some q"
    by (cases "IndexByte (drop i query) qmark") (auto simp: IndexByte_None Count_no_qmark)
  from "1.prems" have lt: "argPos < length args" by simp
  show ?case
  proof (cases "literal F (args ! argPos)")
    case None
    then show ?thesis by (subst interp_loop.simps) (simp add: True q lt)
  next
    case (Some lit)
    have "argPos \<noteq> j"
    proof
      assume "argPos = j"
      with "1.prems"(4) have "literal F (args ! argPos) = None" by (simp add: literal_None)
      with Some show False by simp
    qed
    with "1.prems"(2) have le: "argPos + 1 \<le> j" by simp
    have cnt: "Count (drop (i + q + 1) query) = length args - (argPos + 1)"
      using Count_drop_step[OF q] "1.prems"(1) by simp
    have "interp_loop F query args (i + q + 1) (buf @ take q (drop i query) @ lit) (argPos + 1) =
        Inl ErrSkip"
      by (rule "1.IH"[OF True q lt Some cnt le "1.prems"(3) "1.prems"(4)])
    then show ?thesis
      by (subst interp_loop.simps) (simp add: True q lt Some)
  qed
qed

lemma interpolateParams_ok:
  assumes "Count query = length args" "list_all supported args"
  shows "interpolateParams F query args =
     Inr (spec_substitute query (map (\<lambda>a. the (literal F a)) args))"
proof -
  have "interp_loop F query args 0 [] 0 =
      Inr ([] @ spec_substitute (drop 0 query) (map (\<lambda>a. the (literal F a)) (drop 0 args)),
           length args)"
    by (rule interp_loop_ok) (use assms in simp_all)
  with assms(1) show ?thesis by (simp add: interpolateParams_def)
qed

lemma interpolateParams_mismatch:
  "Count query \<noteq> length args \<Longrightarrow> interpolateParams F query args = Inl ErrSkip"
  by (simp add: interpolateParams_def)

lemma interpolateParams_unsupported:
  assumes "a \<in> set args" "\<not> supported a"
  shows "interpolateParams F query args = Inl ErrSkip"
proof (cases "Count query = length args")
  case False
  then show ?thesis by (simp add: interpolateParams_def)
next
  case True
  from assms obtain j where j: "j < length args" "args ! j = a"
    by (auto simp: in_set_conv_nth)
  have "interp_loop F query args 0 [] 0 = Inl ErrSkip"
    by (rule interp_loop_skip[where j = j]) (use True j assms in simp_all)
  then show ?thesis by (simp add: interpolateParams_def)
qed

lemma Count_renderings:
  "list_all supported args \<Longrightarrow>
   Count (concat (map (\<lambda>a. the (literal F a)) args)) = sum_list (map (qmarks F) args)"
  by (induction args) (simp_all add: Count_Nil Count_append Count_literal)

section \<open>Claims about the interpolator and the escaper\<close>

text \<open>
  C7, as amended. For a query with exactly as many \<open>?\<close> bytes as there are arguments,
  all of kinds with a rule, \<open>interpolateParams\<close> succeeds and returns the query with
  its placeholders replaced, from left to right, by the texts of the arguments in
  order (\<open>literal\<close>: \<open>NULL\<close>, decimal text, \<open>1\<close> or \<open>0\<close>, Unix seconds, the float
  text, the quoted escaped text), every other byte kept. The \<open>?\<close> bytes of the result
  are exactly those inside the texts written for the arguments, so none remains when
  no text argument holds one. With a different number of arguments the result is
  \<open>driver.ErrSkip\<close>.
\<close>

theorem interpolateParams_substitutes:
  "(Count query = length args \<and> list_all supported args \<longrightarrow>
      interpolateParams F query args =
        Inr (spec_substitute query (map (\<lambda>a. the (literal F a)) args)) \<and>
      Count (spec_substitute query (map (\<lambda>a. the (literal F a)) args)) =
        sum_list (map (qmarks F) args)) \<and>
   (Count query \<noteq> length args \<longrightarrow> interpolateParams F query args = Inl ErrSkip)"
proof (intro conjI impI)
  assume h: "Count query = length args \<and> list_all supported args"
  then show "interpolateParams F query args =
      Inr (spec_substitute query (map (\<lambda>a. the (literal F a)) args))"
    by (simp add: interpolateParams_ok)
  from h have "Count query = length (map (\<lambda>a. the (literal F a)) args)" by simp
  then have "Count (spec_substitute query (map (\<lambda>a. the (literal F a)) args)) =
      Count (concat (map (\<lambda>a. the (literal F a)) args))"
    by (rule Count_spec_substitute)
  with h show "Count (spec_substitute query (map (\<lambda>a. the (literal F a)) args)) =
      sum_list (map (qmarks F) args)"
    by (simp add: Count_renderings)
next
  assume "Count query \<noteq> length args"
  then show "interpolateParams F query args = Inl ErrSkip"
    by (rule interpolateParams_mismatch)
qed

theorem interpolateParams_substitutes_witness:
  "Count ''a = ? AND b = ?'' = length [VInt64 5, VString ''x''] \<and>
   list_all supported [VInt64 5, VString ''x''] \<and>
   interpolateParams fmt0 ''a = ? AND b = ?'' [VInt64 5, VString ''x''] =
     Inr (''a = 5 AND b = '' @ [squote] @ ''x'' @ [squote]) \<and>
   Count (''a = 5 AND b = '' @ [squote] @ ''x'' @ [squote]) = 0 \<and>
   Count ''a = ?'' \<noteq> length [VInt64 5, VString ''x''] \<and>
   interpolateParams fmt0 ''a = ?'' [VInt64 5, VString ''x''] = Inl ErrSkip"
proof -
  have h: "Count ''a = ? AND b = ?'' = length [VInt64 5, VString ''x''] \<and>
      list_all supported [VInt64 5, VString ''x'']"
    by (simp add: Count_def supported_def)
  have m: "Count ''a = ?'' \<noteq> length [VInt64 5, VString ''x'']"
    by (simp add: Count_def)
  have e: "spec_substitute ''a = ? AND b = ?'' (map (\<lambda>a. the (literal fmt0 a)) [VInt64 5, VString ''x'']) =
      ''a = 5 AND b = '' @ [squote] @ ''x'' @ [squote]"
    by (simp add: FormatInt_def dec_nat.simps digit_def escapeByte_def)
  have q: "sum_list (map (qmarks fmt0) [VInt64 5, VString ''x'']) = 0"
    by (simp add: qmarks_def Count_def)
  from interpolateParams_substitutes[of "''a = ? AND b = ?''" "[VInt64 5, VString ''x'']" fmt0] h
  have "interpolateParams fmt0 ''a = ? AND b = ?'' [VInt64 5, VString ''x''] =
        Inr (spec_substitute ''a = ? AND b = ?'' (map (\<lambda>a. the (literal fmt0 a)) [VInt64 5, VString ''x''])) \<and>
      Count (spec_substitute ''a = ? AND b = ?'' (map (\<lambda>a. the (literal fmt0 a)) [VInt64 5, VString ''x''])) =
        sum_list (map (qmarks fmt0) [VInt64 5, VString ''x''])"
    by blast
  then have a: "interpolateParams fmt0 ''a = ? AND b = ?'' [VInt64 5, VString ''x''] =
        Inr (''a = 5 AND b = '' @ [squote] @ ''x'' @ [squote]) \<and>
      Count (''a = 5 AND b = '' @ [squote] @ ''x'' @ [squote]) = 0"
    unfolding e q .
  from interpolateParams_substitutes[of "''a = ?''" "[VInt64 5, VString ''x'']" fmt0] m
  have b: "interpolateParams fmt0 ''a = ?'' [VInt64 5, VString ''x''] = Inl ErrSkip"
    by blast
  from h m a b show ?thesis by blast
qed

text \<open>
  C7 as stated fails: one placeholder, one text argument, and the result still holds
  a \<open>?\<close> byte, the one of the argument.
\<close>

theorem interpolateParams_qmark_remains:
  "Count ''?'' = length [VString ''?''] \<and> list_all supported [VString ''?''] \<and>
   interpolateParams fmt0 ''?'' [VString ''?''] = Inr [squote, qmark, squote] \<and>
   Count [squote, qmark, squote] = 1"
proof -
  have "interpolateParams fmt0 ''?'' [VString ''?''] = Inr [squote, qmark, squote]"
    by (simp add: interpolateParams_def Count_def interp_loop.simps escapeByte_def)
  then show ?thesis by (simp add: Count_def supported_def)
qed

text \<open>
  The first half of C3 holds: each of the seven bytes is replaced by a text that
  starts with a backslash, and every other byte is copied.
\<close>

lemma escapeByte_special:
  "c \<in> {CHR 0x00, CHR 0x0A, CHR 0x0D, CHR 0x1A, squote, dquote, bslash} \<Longrightarrow>
   hd (escapeByte c) = bslash \<and> escapeByte c \<noteq> [c]"
  by (auto simp: escapeByte_def)

lemma escapeByte_other:
  "c \<notin> {CHR 0x00, CHR 0x0A, CHR 0x0D, CHR 0x1A, squote, dquote, bslash} \<Longrightarrow>
   escapeByte c = [c]"
  by (simp add: escapeByte_def)

text \<open>
  C3 fails on the code. For the text argument \<open>a'b\<close> the interpolator writes
  \<open>'a\\'b'\<close>: the quote is preceded by two backslashes. Read with backslash escapes,
  the two backslashes are one escaped backslash and the quote after them ends the
  literal; read as standard SQL, the backslashes are ordinary bytes and the quote
  ends the literal as well. Either way the literal ends before the last byte.
\<close>

theorem escapeValue_quote_ends_literal:
  "literal fmt0 (VString [CHR ''a'', squote, CHR ''b'']) =
     Some [squote, CHR ''a'', bslash, bslash, squote, CHR ''b'', squote] \<and>
   spec_closing_bs [CHR ''a'', bslash, bslash, squote, CHR ''b'', squote] = Some 3 \<and>
   spec_closing_sql [CHR ''a'', bslash, bslash, squote, CHR ''b'', squote] = Some 3 \<and>
   \<not> spec_valid_literal spec_closing_bs [squote, CHR ''a'', bslash, bslash, squote, CHR ''b'', squote] \<and>
   \<not> spec_valid_literal spec_closing_sql [squote, CHR ''a'', bslash, bslash, squote, CHR ''b'', squote]"
  by (simp add: escapeByte_def spec_valid_literal_def)

section \<open>Claims about the direct path of the connection\<close>

lemma conn_exec_sent: "sent (snd (conn_exec E c cmd)) = sent c @ [cmd]"
  by (simp add: conn_exec_def split: sum.splits)

text \<open>\<open>Query\<close> submits the interpolated text, and nothing when interpolation fails.\<close>

lemma conn_Query_sent:
  "interpolateParams F query args = Inr t \<Longrightarrow>
   sent (snd (conn_Query E F c query args)) = sent c @ [t]"
  by (simp add: conn_Query_def conn_query_def conn_exec_def split: sum.splits)

lemma conn_Query_skip:
  "interpolateParams F query args = Inl e \<Longrightarrow>
   conn_Query E F c query args = (Inl e, c)"
  by (simp add: conn_Query_def conn_query_def)

text \<open>\<open>Exec\<close> submits the query as it was given, whatever the arguments.\<close>

lemma conn_Exec_sent: "sent (snd (conn_Exec E c query args)) = sent c @ [query]"
  by (simp add: conn_Exec_def conn_exec_def split: sum.splits)

text \<open>
  C1 fails on the code for \<open>Exec\<close>. With the query \<open>SELECT ?\<close> and the argument
  \<open>int64(1)\<close>, \<open>Query\<close> submits \<open>SELECT 1\<close>, the interpolated text, and \<open>Exec\<close>
  submits \<open>SELECT ?\<close>: it never reads its arguments.
\<close>

theorem conn_Exec_ignores_args:
  "interpolateParams fmt0 ''SELECT ?'' [VInt64 1] = Inr ''SELECT 1'' \<and>
   sent (snd (conn_Query engine_ok fmt0 \<lparr>sent = []\<rparr> ''SELECT ?'' [VInt64 1])) = [''SELECT 1''] \<and>
   sent (snd (conn_Exec engine_ok \<lparr>sent = []\<rparr> ''SELECT ?'' [VInt64 1])) = [''SELECT ?'']"
proof -
  have i: "interpolateParams fmt0 ''SELECT ?'' [VInt64 1] = Inr ''SELECT 1''"
    by (simp add: interpolateParams_def Count_def interp_loop.simps FormatInt_def
        dec_nat.simps digit_def)
  then show ?thesis
    by (simp add: conn_Query_def conn_query_def conn_Exec_def conn_exec_def engine_ok_def)
qed

section \<open>The binder\<close>


lemma deref_Some_length: "deref h a = Some st \<Longrightarrow> a < length h \<and> h ! a = st"
  by (auto simp: deref_def split: if_splits)

lemma deref_update: "a < length h \<Longrightarrow> deref (h[a := x]) a = Some x"
  by (simp add: deref_def)

lemma deref_update_same: "deref h a = Some st \<Longrightarrow> h[a := st] = h"
  by (auto simp: deref_def split: if_splits)

lemma bind_of_None: "bind_of i v = None \<longleftrightarrow> v = VNil \<or> \<not> supported v"
  by (cases v) (simp_all add: supported_def)

text \<open>Binding changes the native handle only: the flags of the statement stay.\<close>

lemma bind_args_flags:
  "closed (snd (bind_args E st i args)) = closed st \<and>
   rows (snd (bind_args E st i args)) = rows st"
  by (induction args arbitrary: st i) (auto split: option.splits)

lemma start_flags:
  "start E st args = (e, st') \<Longrightarrow> closed st' = closed st \<and> rows st' = rows st"
proof -
  assume "start E st args = (e, st')"
  then have "st' = snd (start E st args)" by simp
  then show ?thesis by (simp add: start_def bind_args_flags)
qed

lemma start_no_panic: "fst (start E st args) \<noteq> Some (Panic m)"
proof -
  have "fst (bind_args E st i args) \<noteq> Some (Panic m)" for i
    by (induction args arbitrary: st i) (auto split: option.splits)
  then show ?thesis by (simp add: start_def errArgCount_def)
qed

lemma start_mismatch:
  "NumInput st \<noteq> int (length args) \<Longrightarrow>
   start E st args = (Some (errArgCount (int (length args)) (NumInput st)), st)"
  by (simp add: start_def)

lemma stmt_Exec_mismatch:
  assumes "deref h a = Some st" "\<not> closed st" "\<not> rows st" "NumInput st \<noteq> int (length args)"
  shows "stmt_Exec E a h args = (Inl (errArgCount (int (length args)) (NumInput st)), h)"
  using assms by (simp add: stmt_Exec_def start_mismatch deref_update_same)

lemma stmt_Query_mismatch:
  assumes "deref h a = Some st" "\<not> closed st" "\<not> rows st" "NumInput st \<noteq> int (length args)"
  shows "stmt_Query E a h args = (Inl (errArgCount (int (length args)) (NumInput st)), h)"
  using assms by (simp add: stmt_Query_def start_mismatch deref_update_same)

text \<open>
  When the arguments before \<open>v\<close> were all bound and \<open>v\<close> takes the \<open>default\<close> branch,
  the loop stops at \<open>v\<close> with \<open>driver.ErrSkip\<close>: the handle has the binds of the
  arguments before \<open>v\<close> and no other.
\<close>

lemma bind_args_skip:
  "fst (bind_args E st i pre) = None \<Longrightarrow> bind_of (i + length pre) v = None \<Longrightarrow>
   bind_args E st i (pre @ v # post) = (Some ErrSkip, snd (bind_args E st i pre))"
proof (induction pre arbitrary: st i)
  case Nil
  then show ?case by simp
next
  case (Cons u us)
  show ?case
  proof (cases "bind_of i u")
    case None
    with Cons.prems show ?thesis by simp
  next
    case (Some c)
    show ?thesis
    proof (cases "duckdb_bind E (handle st) c")
      case False
      with Some Cons.prems show ?thesis by simp
    next
      case True
      with Some Cons.prems
        Cons.IH[of "st\<lparr>handle := (handle st)\<lparr>binds := binds (handle st) @ [c]\<rparr>\<rparr>" "Suc i"]
      show ?thesis by simp
    qed
  qed
qed

lemma start_skip:
  assumes "\<not> supported v" "NumInput st = int (length (pre @ v # post))"
    "fst (bind_args E st 0 pre) = None"
  shows "start E st (pre @ v # post) = (Some ErrSkip, snd (bind_args E st 0 pre))"
proof -
  from assms(1) have "bind_of (0 + length pre) v = None" by (simp add: bind_of_None)
  from bind_args_skip[OF assms(3) this] assms(2) show ?thesis by (simp add: start_def)
qed

section \<open>Claims about arity and unsupported kinds\<close>

text \<open>
  C8. On the typed-bind path, when the number of arguments differs from the parameter
  count of the statement, \<open>start\<close> fails with the error whose message holds both
  counts (\<open>have\<close> the actual one, \<open>want\<close> the expected one) and returns the statement
  as it was, so with no bind call made on its handle; \<open>Exec\<close> and \<open>Query\<close> on an open
  statement return that error and leave the heap unchanged. On the interpolation
  path a count mismatch is \<open>driver.ErrSkip\<close>.
\<close>

theorem arity_mismatch:
  "(NumInput st \<noteq> int (length args) \<longrightarrow>
      start E st args =
        (Some (Errorf (''incorrect argument count for command: have '' @
           FormatInt (int (length args)) @ '' want '' @ FormatInt (NumInput st))), st)) \<and>
   (NumInput st \<noteq> int (length args) \<and> deref h a = Some st \<and> \<not> closed st \<and> \<not> rows st \<longrightarrow>
      stmt_Exec E a h args = (Inl (errArgCount (int (length args)) (NumInput st)), h) \<and>
      stmt_Query E a h args = (Inl (errArgCount (int (length args)) (NumInput st)), h)) \<and>
   (Count query \<noteq> length args \<longrightarrow> interpolateParams F query args = Inl ErrSkip)"
proof (intro conjI impI)
  assume "NumInput st \<noteq> int (length args)"
  then show "start E st args =
      (Some (Errorf (''incorrect argument count for command: have '' @
         FormatInt (int (length args)) @ '' want '' @ FormatInt (NumInput st))), st)"
    by (simp add: start_mismatch errArgCount_def)
next
  assume h: "NumInput st \<noteq> int (length args) \<and> deref h a = Some st \<and> \<not> closed st \<and> \<not> rows st"
  then show "stmt_Exec E a h args = (Inl (errArgCount (int (length args)) (NumInput st)), h)"
    by (simp add: stmt_Exec_mismatch)
  from h show "stmt_Query E a h args = (Inl (errArgCount (int (length args)) (NumInput st)), h)"
    by (simp add: stmt_Query_mismatch)
next
  assume "Count query \<noteq> length args"
  then show "interpolateParams F query args = Inl ErrSkip"
    by (rule interpolateParams_mismatch)
qed

theorem arity_mismatch_witness:
  "NumInput (new_stmt 2) \<noteq> int (length [VInt64 1]) \<and>
   deref [new_stmt 2] 0 = Some (new_stmt 2) \<and> \<not> closed (new_stmt 2) \<and> \<not> rows (new_stmt 2) \<and>
   start engine_ok (new_stmt 2) [VInt64 1] =
     (Some (Errorf ''incorrect argument count for command: have 1 want 2''), new_stmt 2) \<and>
   stmt_Exec engine_ok 0 [new_stmt 2] [VInt64 1] =
     (Inl (Errorf ''incorrect argument count for command: have 1 want 2''), [new_stmt 2]) \<and>
   stmt_Query engine_ok 0 [new_stmt 2] [VInt64 1] =
     (Inl (Errorf ''incorrect argument count for command: have 1 want 2''), [new_stmt 2]) \<and>
   Count ''SELECT ?, ?'' \<noteq> length [VInt64 1] \<and>
   interpolateParams fmt0 ''SELECT ?, ?'' [VInt64 1] = Inl ErrSkip"
proof -
  have n: "NumInput (new_stmt 2) = 2"
    by (simp add: NumInput_def new_stmt_def new_prepared_def wrap64_def)
  have h1: "NumInput (new_stmt 2) \<noteq> int (length [VInt64 1])"
    by (simp add: n)
  have h2: "deref [new_stmt 2] 0 = Some (new_stmt 2) \<and> \<not> closed (new_stmt 2) \<and> \<not> rows (new_stmt 2)"
    by (simp add: deref_def new_stmt_def)
  from h1 h2 have h: "NumInput (new_stmt 2) \<noteq> int (length [VInt64 1]) \<and>
      deref [new_stmt 2] 0 = Some (new_stmt 2) \<and> \<not> closed (new_stmt 2) \<and> \<not> rows (new_stmt 2)"
    by blast
  have c: "Count ''SELECT ?, ?'' \<noteq> length [VInt64 1]"
    by (simp add: Count_def)
  have m: "''incorrect argument count for command: have '' @ FormatInt (int (length [VInt64 1])) @
      '' want '' @ FormatInt (NumInput (new_stmt 2)) =
      ''incorrect argument count for command: have 1 want 2''"
    by (simp add: n FormatInt_def dec_nat.simps digit_def)
  then have e: "errArgCount (int (length [VInt64 1])) (NumInput (new_stmt 2)) =
      Errorf ''incorrect argument count for command: have 1 want 2''"
    by (simp add: errArgCount_def)
  note t = arity_mismatch[of "new_stmt 2" "[VInt64 1]" engine_ok "[new_stmt 2]" 0
      "''SELECT ?, ?''" fmt0]
  from t h have "start engine_ok (new_stmt 2) [VInt64 1] =
      (Some (Errorf (''incorrect argument count for command: have '' @
         FormatInt (int (length [VInt64 1])) @ '' want '' @ FormatInt (NumInput (new_stmt 2)))),
       new_stmt 2)"
    by blast
  then have s: "start engine_ok (new_stmt 2) [VInt64 1] =
      (Some (Errorf ''incorrect argument count for command: have 1 want 2''), new_stmt 2)"
    unfolding m .
  from t h have "stmt_Exec engine_ok 0 [new_stmt 2] [VInt64 1] =
        (Inl (errArgCount (int (length [VInt64 1])) (NumInput (new_stmt 2))), [new_stmt 2]) \<and>
      stmt_Query engine_ok 0 [new_stmt 2] [VInt64 1] =
        (Inl (errArgCount (int (length [VInt64 1])) (NumInput (new_stmt 2))), [new_stmt 2])"
    by blast
  then have x: "stmt_Exec engine_ok 0 [new_stmt 2] [VInt64 1] =
        (Inl (Errorf ''incorrect argument count for command: have 1 want 2''), [new_stmt 2]) \<and>
      stmt_Query engine_ok 0 [new_stmt 2] [VInt64 1] =
        (Inl (Errorf ''incorrect argument count for command: have 1 want 2''), [new_stmt 2])"
    unfolding e .
  from t c have i: "interpolateParams fmt0 ''SELECT ?, ?'' [VInt64 1] = Inl ErrSkip"
    by blast
  from h s x c i show ?thesis by blast
qed

text \<open>
  C9. An argument \<open>v\<close> of a kind outside the supported set makes both paths report
  \<open>driver.ErrSkip\<close>. The interpolator returns it for every query and every argument
  list that holds \<open>v\<close>. The binder returns it when \<open>v\<close> is reached, that is when the
  count matches and the arguments before \<open>v\<close> were bound; it stops there, with no
  bind call for \<open>v\<close> or for the arguments after it.
\<close>

theorem unsupported_kind_skips:
  assumes "\<not> supported v"
  shows "(v \<in> set args \<longrightarrow> interpolateParams F query args = Inl ErrSkip) \<and>
    (NumInput st = int (length (pre @ v # post)) \<and> fst (bind_args E st 0 pre) = None \<longrightarrow>
       start E st (pre @ v # post) = (Some ErrSkip, snd (bind_args E st 0 pre)))"
  using assms by (simp add: interpolateParams_unsupported start_skip)

theorem unsupported_kind_skips_witness:
  "\<not> supported (VBytes [1, 2]) \<and>
   VBytes [1, 2] \<in> set [VInt64 1, VBytes [1, 2], VBool True] \<and>
   interpolateParams fmt0 ''? ? ?'' [VInt64 1, VBytes [1, 2], VBool True] = Inl ErrSkip \<and>
   NumInput (new_stmt 3) = int (length ([VInt64 1] @ VBytes [1, 2] # [VBool True])) \<and>
   fst (bind_args engine_ok (new_stmt 3) 0 [VInt64 1]) = None \<and>
   start engine_ok (new_stmt 3) ([VInt64 1] @ VBytes [1, 2] # [VBool True]) =
     (Some ErrSkip,
      (new_stmt 3)\<lparr>handle := (new_prepared 3)\<lparr>binds := [duckdb_bind_int64 1 1]\<rparr>\<rparr>)"
proof -
  have u: "\<not> supported (VBytes [1, 2])"
    by (simp add: supported_def)
  have m: "VBytes [1, 2] \<in> set [VInt64 1, VBytes [1, 2], VBool True]"
    by simp
  have n: "NumInput (new_stmt 3) = int (length ([VInt64 1] @ VBytes [1, 2] # [VBool True]))"
    by (simp add: NumInput_def new_stmt_def new_prepared_def wrap64_def)
  have b: "bind_args engine_ok (new_stmt 3) 0 [VInt64 1] =
      (None, (new_stmt 3)\<lparr>handle := (new_prepared 3)\<lparr>binds := [duckdb_bind_int64 1 1]\<rparr>\<rparr>)"
    by (simp add: engine_ok_def new_stmt_def new_prepared_def)
  note t = unsupported_kind_skips[OF u, of "[VInt64 1, VBytes [1, 2], VBool True]" fmt0 "''? ? ?''"
      "new_stmt 3" "[VInt64 1]" "[VBool True]" engine_ok]
  from t m have i: "interpolateParams fmt0 ''? ? ?'' [VInt64 1, VBytes [1, 2], VBool True] = Inl ErrSkip"
    by blast
  from t n b have s: "start engine_ok (new_stmt 3) ([VInt64 1] @ VBytes [1, 2] # [VBool True]) =
      (Some ErrSkip, snd (bind_args engine_ok (new_stmt 3) 0 [VInt64 1]))"
    by simp
  from u m i n b s show ?thesis by simp
qed

section \<open>The cursor\<close>











lemma next_cols_invalid:
  "list_ex (\<lambda>c. col_type c = DUCKDB_TYPE_INVALID) cs \<Longrightarrow> 0 \<le> cur \<Longrightarrow> cur < 2 ^ 31 \<Longrightarrow>
   i + length cs \<le> length dst \<Longrightarrow>
   fst (next_cols cs i cur dst) = Some errInvalidType"
proof (induction cs arbitrary: i dst)
  case Nil
  then show ?case by simp
next
  case (Cons c cs)
  show ?case
  proof (cases "col_type c = DUCKDB_TYPE_INVALID")
    case True
    then show ?thesis by simp
  next
    case False
    with Cons.prems(1) have ex: "list_ex (\<lambda>c. col_type c = DUCKDB_TYPE_INVALID) cs" by simp
    from Cons.prems(4) have len: "Suc i + length cs \<le> length dst" by simp
    show ?thesis
    proof (cases "decode c (nat cur)")
      case None
      with False Cons.IH[OF ex Cons.prems(2,3) len] show ?thesis by simp
    next
      case (Some v)
      from len have "Suc i + length cs \<le> length (dst[i := v])" by simp
      from Cons.IH[OF ex Cons.prems(2,3) this] False Some Cons.prems(2,3,4)
      show ?thesis by simp
    qed
  qed
qed

section \<open>Claims about the cursor\<close>






text \<open>
  C5, as amended. When a row is read (open cursor, offset before the end and inside
  the arrays, a buffer slot for every column) and some column has the tag
  \<open>DUCKDB_TYPE_INVALID\<close>, \<open>Next\<close> fails with \<open>errInvalidType\<close>, "invalid data type",
  and the cursor is returned as it was, its offset not advanced.
\<close>

theorem Next_invalid_type:
  assumes "rows_r r = Some res" "0 \<le> cursor r" "cursor r < wrap64 (int (row_count res))"
    "cursor r < 2 ^ 31" "length (cols res) \<le> length dst"
    "list_ex (\<lambda>c. col_type c = DUCKDB_TYPE_INVALID) (cols res)"
  shows "fst (Next r dst) = Some errInvalidType \<and> fst (snd (Next r dst)) = r"
proof -
  have "fst (next_cols (cols res) 0 (cursor r) dst) = Some errInvalidType"
    by (rule next_cols_invalid[OF assms(6) assms(2) assms(4)]) (use assms(5) in simp)
  then obtain dst' where "next_cols (cols res) 0 (cursor r) dst = (Some errInvalidType, dst')"
    by (cases "next_cols (cols res) 0 (cursor r) dst") simp
  with assms(1,3) show ?thesis by (simp add: Next_def)
qed

theorem Next_invalid_type_witness:
  "rows_r (open_rows (sample_result [DUCKDB_TYPE_BIGINT, DUCKDB_TYPE_INVALID] 1)) =
     Some (sample_result [DUCKDB_TYPE_BIGINT, DUCKDB_TYPE_INVALID] 1) \<and>
   0 \<le> cursor (open_rows (sample_result [DUCKDB_TYPE_BIGINT, DUCKDB_TYPE_INVALID] 1)) \<and>
   cursor (open_rows (sample_result [DUCKDB_TYPE_BIGINT, DUCKDB_TYPE_INVALID] 1)) <
     wrap64 (int (row_count (sample_result [DUCKDB_TYPE_BIGINT, DUCKDB_TYPE_INVALID] 1))) \<and>
   cursor (open_rows (sample_result [DUCKDB_TYPE_BIGINT, DUCKDB_TYPE_INVALID] 1)) < 2 ^ 31 \<and>
   length (cols (sample_result [DUCKDB_TYPE_BIGINT, DUCKDB_TYPE_INVALID] 1)) \<le> length [DNil, DNil] \<and>
   list_ex (\<lambda>c. col_type c = DUCKDB_TYPE_INVALID)
     (cols (sample_result [DUCKDB_TYPE_BIGINT, DUCKDB_TYPE_INVALID] 1)) \<and>
   fst (Next (open_rows (sample_result [DUCKDB_TYPE_BIGINT, DUCKDB_TYPE_INVALID] 1)) [DNil, DNil]) =
     Some errInvalidType \<and>
   fst (snd (Next (open_rows (sample_result [DUCKDB_TYPE_BIGINT, DUCKDB_TYPE_INVALID] 1)) [DNil, DNil])) =
     open_rows (sample_result [DUCKDB_TYPE_BIGINT, DUCKDB_TYPE_INVALID] 1)"
proof -
  let ?res = "sample_result [DUCKDB_TYPE_BIGINT, DUCKDB_TYPE_INVALID] 1"
  have h1: "rows_r (open_rows ?res) = Some ?res" by (simp add: open_rows_def)
  have h2: "0 \<le> cursor (open_rows ?res)" by (simp add: open_rows_def)
  have h3: "cursor (open_rows ?res) < wrap64 (int (row_count ?res))"
    by (simp add: open_rows_def sample_result_def wrap64_def)
  have h4: "cursor (open_rows ?res) < 2 ^ 31" by (simp add: open_rows_def)
  have h5: "length (cols ?res) \<le> length [DNil, DNil]" by (simp add: sample_result_def)
  have h6: "list_ex (\<lambda>c. col_type c = DUCKDB_TYPE_INVALID) (cols ?res)"
    by (simp add: sample_result_def sample_col_def)
  from Next_invalid_type[OF h1 h2 h3 h4 h5 h6] h1 h2 h3 h4 h5 h6 show ?thesis by blast
qed

text \<open>
  C5 as stated fails: a column whose tag is outside the decode table and is not
  \<open>DUCKDB_TYPE_INVALID\<close> matches no case of the switch. \<open>Next\<close> returns no error,
  leaves the slot of the column as it was, and advances the cursor.
\<close>

theorem Next_other_type_succeeds:
  "\<not> decodable (sample_col (DUCKDB_TYPE_OTHER 16)) \<and>
   cols (sample_result [DUCKDB_TYPE_OTHER 16] 1) = [sample_col (DUCKDB_TYPE_OTHER 16)] \<and>
   Next (open_rows (sample_result [DUCKDB_TYPE_OTHER 16] 1)) [DNil] =
     (None, (open_rows (sample_result [DUCKDB_TYPE_OTHER 16] 1))\<lparr>cursor := 1\<rparr>, [DNil])"
  by (simp add: Next_def open_rows_def sample_result_def sample_col_def decode_def decodable_def
      wrap64_def)

section \<open>The statement state machine\<close>

lemma stmt_Close_rows:
  "deref h a = Some st \<Longrightarrow> rows st \<Longrightarrow>
   stmt_Close a h =
     (Some (Errorf ''database/sql/driver: misuse of duckdb driver: Close with active Rows''), h)"
  by (simp add: stmt_Close_def)

lemma stmt_Close_closed:
  "deref h a = Some st \<Longrightarrow> \<not> rows st \<Longrightarrow> closed st \<Longrightarrow>
   stmt_Close a h =
     (Some (Errorf ''database/sql/driver: misuse of duckdb driver: double Close of Stmt''), h)"
  by (simp add: stmt_Close_def)

lemma stmt_Close_open:
  "deref h a = Some st \<Longrightarrow> \<not> rows st \<Longrightarrow> \<not> closed st \<Longrightarrow>
   stmt_Close a h = (None, h[a := st\<lparr>closed := True, handle := (handle st)\<lparr>destroyed := True\<rparr>\<rparr>])"
  by (simp add: stmt_Close_def)

lemma stmt_Exec_guard:
  "deref h a = Some st \<Longrightarrow> closed st \<or> rows st \<Longrightarrow> \<exists>m. stmt_Exec E a h args = (Inl (Panic m), h)"
  by (auto simp: stmt_Exec_def)

lemma stmt_Query_guard:
  "deref h a = Some st \<Longrightarrow> closed st \<or> rows st \<Longrightarrow> \<exists>m. stmt_Query E a h args = (Inl (Panic m), h)"
  by (auto simp: stmt_Query_def)

lemma stmt_Exec_open_no_panic:
  assumes "deref h a = Some st" "\<not> closed st" "\<not> rows st"
  shows "fst (stmt_Exec E a h args) \<noteq> Inl (Panic m)"
proof (cases "start E st args")
  case (Pair e st')
  with start_no_panic[of E st args m] have "e \<noteq> Some (Panic m)" by simp
  with assms Pair show ?thesis
    by (cases e) (auto simp: stmt_Exec_def split: sum.splits)
qed

lemma stmt_Query_open_no_panic:
  assumes "deref h a = Some st" "\<not> closed st" "\<not> rows st"
  shows "fst (stmt_Query E a h args) \<noteq> Inl (Panic m)"
proof (cases "start E st args")
  case (Pair e st')
  with start_no_panic[of E st args m] have "e \<noteq> Some (Panic m)" by simp
  with assms Pair show ?thesis
    by (cases e) (auto simp: stmt_Query_def split: sum.splits)
qed

lemma stmt_Query_success:
  assumes "deref h a = Some st" "\<not> closed st" "\<not> rows st" "stmt_Query E a h args = (Inr r, h1)"
  shows "\<exists>st' res. start E st args = (None, st') \<and>
     r = \<lparr>rows_r = Some res, rows_s = Some a, cursor = 0\<rparr> \<and> h1 = h[a := st'\<lparr>rows := True\<rparr>]"
proof (cases "start E st args")
  case (Pair e st')
  with assms show ?thesis
    by (cases e) (auto simp: stmt_Query_def split: sum.splits)
qed

lemma stmt_Query_then_Close:
  assumes "deref h a = Some st" "\<not> closed st" "\<not> rows st" "stmt_Query E a h args = (Inr r, h1)"
  shows "(\<exists>st1. deref h1 a = Some st1 \<and> rows st1 \<and> \<not> closed st1) \<and>
     (\<exists>r' h2 st2. rows_Close r h1 = (None, r', h2) \<and> deref h2 a = Some st2 \<and>
        \<not> rows st2 \<and> \<not> closed st2 \<and>
        (\<exists>h3 st3. stmt_Close a h2 = (None, h3) \<and> deref h3 a = Some st3 \<and> closed st3) \<and>
        (\<forall>m. fst (stmt_Exec E' a h2 args') \<noteq> Inl (Panic m)) \<and>
        (\<forall>m. fst (stmt_Query E' a h2 args') \<noteq> Inl (Panic m)))"
proof -
  from stmt_Query_success[OF assms] obtain st' res where
    s: "start E st args = (None, st')" and
    r: "r = \<lparr>rows_r = Some res, rows_s = Some a, cursor = 0\<rparr>" and
    h1: "h1 = h[a := st'\<lparr>rows := True\<rparr>]" by blast
  from deref_Some_length[OF assms(1)] have a: "a < length h" by simp
  from start_flags[OF s] assms(2,3) have f: "\<not> closed st'" "\<not> rows st'" by simp_all
  let ?st1 = "st'\<lparr>rows := True\<rparr>"
  let ?st2 = "st'\<lparr>rows := False\<rparr>"
  let ?h2 = "h[a := ?st2]"
  have d1: "deref h1 a = Some ?st1" unfolding h1 by (rule deref_update[OF a])
  have p1: "\<exists>st1. deref h1 a = Some st1 \<and> rows st1 \<and> \<not> closed st1"
    using d1 f by auto
  have rc: "rows_Close r h1 = (None, r\<lparr>rows_r := None, rows_s := None\<rparr>, ?h2)"
    using d1 by (simp add: rows_Close_def r h1)
  have d2: "deref ?h2 a = Some ?st2" by (rule deref_update[OF a])
  have o2: "\<not> rows ?st2" "\<not> closed ?st2" using f by simp_all
  have cl: "stmt_Close a ?h2 =
      (None, ?h2[a := ?st2\<lparr>closed := True, handle := (handle ?st2)\<lparr>destroyed := True\<rparr>\<rparr>])"
    by (rule stmt_Close_open[OF d2 o2])
  have d3: "deref (?h2[a := ?st2\<lparr>closed := True, handle := (handle ?st2)\<lparr>destroyed := True\<rparr>\<rparr>]) a =
      Some (?st2\<lparr>closed := True, handle := (handle ?st2)\<lparr>destroyed := True\<rparr>\<rparr>)"
    by (rule deref_update) (use a in simp)
  have p3: "\<exists>h3 st3. stmt_Close a ?h2 = (None, h3) \<and> deref h3 a = Some st3 \<and> closed st3"
    using cl d3 by auto
  have e: "\<forall>m. fst (stmt_Exec E' a ?h2 args') \<noteq> Inl (Panic m)"
    using stmt_Exec_open_no_panic[OF d2 o2(2) o2(1)] by blast
  have q: "\<forall>m. fst (stmt_Query E' a ?h2 args') \<noteq> Inl (Panic m)"
    using stmt_Query_open_no_panic[OF d2 o2(2) o2(1)] by blast
  from p1 rc d2 o2 p3 e q show ?thesis by blast
qed

lemma stmt_Exec_failure_keeps_open:
  assumes "deref h a = Some st" "\<not> closed st" "\<not> rows st" "stmt_Exec E a h args = (Inl e, h')"
  shows "\<exists>st'. deref h' a = Some st' \<and> \<not> closed st' \<and> \<not> rows st'"
proof (cases "start E st args")
  case (Pair e' st')
  from deref_Some_length[OF assms(1)] have a: "a < length h" by simp
  from start_flags[OF Pair] assms(2,3) have f: "\<not> closed st'" "\<not> rows st'" by simp_all
  from assms Pair have "h' = h[a := st']"
    by (cases e') (auto simp: stmt_Exec_def split: sum.splits)
  with deref_update[OF a, of st'] f show ?thesis by auto
qed

lemma stmt_Query_bind_failure_keeps_open:
  assumes "deref h a = Some st" "\<not> closed st" "\<not> rows st" "start E st args = (Some e, st')"
  shows "stmt_Query E a h args = (Inl e, h[a := st']) \<and> deref (h[a := st']) a = Some st' \<and>
     \<not> closed st' \<and> \<not> rows st'"
proof -
  from deref_Some_length[OF assms(1)] have a: "a < length h" by simp
  from start_flags[OF assms(4)] assms(2,3) have f: "\<not> closed st'" "\<not> rows st'" by simp_all
  from assms have "stmt_Query E a h args = (Inl e, h[a := st'])" by (simp add: stmt_Query_def)
  with deref_update[OF a, of st'] f show ?thesis by simp
qed

lemma stmt_Query_engine_error_sets_rows:
  assumes "deref h a = Some st" "\<not> closed st" "\<not> rows st" "start E st args = (None, st')"
    "duckdb_execute_prepared E (handle st') = Inl msg"
  shows "stmt_Query E a h args = (Inl (Errorf msg), h[a := st'\<lparr>rows := True\<rparr>])"
  using assms by (simp add: stmt_Query_def)

section \<open>Claims about statements\<close>

text \<open>
  C6. \<open>Close\<close> on a statement with an open cursor fails, and so does \<open>Close\<close> on a
  closed statement; \<open>Exec\<close> and \<open>Query\<close> on a closed statement or on one with an
  open cursor panic, and nothing changes. After a \<open>Query\<close> that returned a cursor
  the statement has its \<open>rows\<close> flag set; closing that cursor succeeds and clears
  the flag, after which \<open>Close\<close> succeeds and closes the statement, and neither
  \<open>Exec\<close> nor \<open>Query\<close> is rejected with a panic.
\<close>

theorem stmt_state_machine:
  "(deref h a = Some st \<and> rows st \<longrightarrow>
      stmt_Close a h =
        (Some (Errorf ''database/sql/driver: misuse of duckdb driver: Close with active Rows''), h)) \<and>
   (deref h a = Some st \<and> \<not> rows st \<and> closed st \<longrightarrow>
      stmt_Close a h =
        (Some (Errorf ''database/sql/driver: misuse of duckdb driver: double Close of Stmt''), h)) \<and>
   (deref h a = Some st \<and> (closed st \<or> rows st) \<longrightarrow>
      (\<exists>m. stmt_Exec E a h args = (Inl (Panic m), h)) \<and>
      (\<exists>m. stmt_Query E a h args = (Inl (Panic m), h))) \<and>
   (deref h a = Some st \<and> \<not> closed st \<and> \<not> rows st \<and> stmt_Query E a h args = (Inr r, h1) \<longrightarrow>
      (\<exists>st1. deref h1 a = Some st1 \<and> rows st1 \<and> \<not> closed st1) \<and>
      (\<exists>r' h2 st2. rows_Close r h1 = (None, r', h2) \<and> deref h2 a = Some st2 \<and>
         \<not> rows st2 \<and> \<not> closed st2 \<and>
         (\<exists>h3 st3. stmt_Close a h2 = (None, h3) \<and> deref h3 a = Some st3 \<and> closed st3) \<and>
         (\<forall>m. fst (stmt_Exec E' a h2 args') \<noteq> Inl (Panic m)) \<and>
         (\<forall>m. fst (stmt_Query E' a h2 args') \<noteq> Inl (Panic m))))"
proof (intro conjI impI)
  assume "deref h a = Some st \<and> rows st"
  then show "stmt_Close a h =
      (Some (Errorf ''database/sql/driver: misuse of duckdb driver: Close with active Rows''), h)"
    by (simp add: stmt_Close_rows)
next
  assume "deref h a = Some st \<and> \<not> rows st \<and> closed st"
  then show "stmt_Close a h =
      (Some (Errorf ''database/sql/driver: misuse of duckdb driver: double Close of Stmt''), h)"
    by (simp add: stmt_Close_closed)
next
  assume g: "deref h a = Some st \<and> (closed st \<or> rows st)"
  then show "\<exists>m. stmt_Exec E a h args = (Inl (Panic m), h)"
    using stmt_Exec_guard by blast
  from g show "\<exists>m. stmt_Query E a h args = (Inl (Panic m), h)"
    using stmt_Query_guard by blast
next
  assume q: "deref h a = Some st \<and> \<not> closed st \<and> \<not> rows st \<and>
      stmt_Query E a h args = (Inr r, h1)"
  then have d: "deref h a = Some st" and c: "\<not> closed st" and o: "\<not> rows st"
    and s: "stmt_Query E a h args = (Inr r, h1)"
    by simp_all
  note t = stmt_Query_then_Close[OF d c o s, of E' args']
  from t show "\<exists>st1. deref h1 a = Some st1 \<and> rows st1 \<and> \<not> closed st1"
    by (rule conjunct1)
  from t show "\<exists>r' h2 st2. rows_Close r h1 = (None, r', h2) \<and> deref h2 a = Some st2 \<and>
      \<not> rows st2 \<and> \<not> closed st2 \<and>
      (\<exists>h3 st3. stmt_Close a h2 = (None, h3) \<and> deref h3 a = Some st3 \<and> closed st3) \<and>
      (\<forall>m. fst (stmt_Exec E' a h2 args') \<noteq> Inl (Panic m)) \<and>
      (\<forall>m. fst (stmt_Query E' a h2 args') \<noteq> Inl (Panic m))"
    by (rule conjunct2)
qed

theorem stmt_state_machine_witness:
  "deref [(new_stmt 0)\<lparr>rows := True\<rparr>] 0 = Some ((new_stmt 0)\<lparr>rows := True\<rparr>) \<and>
   rows ((new_stmt 0)\<lparr>rows := True\<rparr>) \<and>
   stmt_Close 0 [(new_stmt 0)\<lparr>rows := True\<rparr>] =
     (Some (Errorf ''database/sql/driver: misuse of duckdb driver: Close with active Rows''),
      [(new_stmt 0)\<lparr>rows := True\<rparr>]) \<and>
   (\<exists>m. stmt_Exec engine_ok 0 [(new_stmt 0)\<lparr>rows := True\<rparr>] [] =
      (Inl (Panic m), [(new_stmt 0)\<lparr>rows := True\<rparr>])) \<and>
   (\<exists>m. stmt_Query engine_ok 0 [(new_stmt 0)\<lparr>rows := True\<rparr>] [] =
      (Inl (Panic m), [(new_stmt 0)\<lparr>rows := True\<rparr>])) \<and>
   deref [(new_stmt 0)\<lparr>closed := True\<rparr>] 0 = Some ((new_stmt 0)\<lparr>closed := True\<rparr>) \<and>
   \<not> rows ((new_stmt 0)\<lparr>closed := True\<rparr>) \<and> closed ((new_stmt 0)\<lparr>closed := True\<rparr>) \<and>
   stmt_Close 0 [(new_stmt 0)\<lparr>closed := True\<rparr>] =
     (Some (Errorf ''database/sql/driver: misuse of duckdb driver: double Close of Stmt''),
      [(new_stmt 0)\<lparr>closed := True\<rparr>]) \<and>
   deref [new_stmt 0] 0 = Some (new_stmt 0) \<and> \<not> closed (new_stmt 0) \<and> \<not> rows (new_stmt 0) \<and>
   stmt_Query engine_ok 0 [new_stmt 0] [] =
     (Inr \<lparr>rows_r = Some empty_result, rows_s = Some 0, cursor = 0\<rparr>,
      [(new_stmt 0)\<lparr>rows := True\<rparr>]) \<and>
   (\<exists>r' h2 st2.
      rows_Close \<lparr>rows_r = Some empty_result, rows_s = Some 0, cursor = 0\<rparr>
        [(new_stmt 0)\<lparr>rows := True\<rparr>] = (None, r', h2) \<and>
      deref h2 0 = Some st2 \<and> \<not> rows st2 \<and> \<not> closed st2 \<and>
      (\<exists>h3 st3. stmt_Close 0 h2 = (None, h3) \<and> deref h3 0 = Some st3 \<and> closed st3) \<and>
      (\<forall>m. fst (stmt_Exec engine_ok 0 h2 []) \<noteq> Inl (Panic m)) \<and>
      (\<forall>m. fst (stmt_Query engine_ok 0 h2 []) \<noteq> Inl (Panic m)))"
proof -
  let ?sr = "(new_stmt 0)\<lparr>rows := True\<rparr>"
  let ?sc = "(new_stmt 0)\<lparr>closed := True\<rparr>"
  let ?r = "\<lparr>rows_r = Some empty_result, rows_s = Some 0, cursor = 0\<rparr>"
  have a1: "deref [?sr] 0 = Some ?sr \<and> rows ?sr" by (simp add: deref_def)
  have b1: "deref [?sc] 0 = Some ?sc \<and> \<not> rows ?sc \<and> closed ?sc"
    by (simp add: deref_def new_stmt_def)
  have c1: "deref [?sr] 0 = Some ?sr \<and> (closed ?sr \<or> rows ?sr)" by (simp add: deref_def)
  have n: "NumInput (new_stmt 0) = 0"
    by (simp add: NumInput_def new_stmt_def new_prepared_def wrap64_def)
  have d0: "deref [new_stmt 0] 0 = Some (new_stmt 0) \<and> \<not> closed (new_stmt 0) \<and> \<not> rows (new_stmt 0)"
    by (simp add: deref_def new_stmt_def)
  have q: "stmt_Query engine_ok 0 [new_stmt 0] [] = (Inr ?r, [?sr])"
    using d0 by (simp add: stmt_Query_def start_def n engine_ok_def)
  note A = stmt_state_machine[of "[?sr]" 0 ?sr engine_ok "[]"]
  note B = stmt_state_machine[of "[?sc]" 0 ?sc]
  note D = stmt_state_machine[of "[new_stmt 0]" 0 "new_stmt 0" engine_ok "[]" ?r "[?sr]"
      engine_ok "[]"]
  from A a1 have a2: "stmt_Close 0 [?sr] =
      (Some (Errorf ''database/sql/driver: misuse of duckdb driver: Close with active Rows''), [?sr])"
    by blast
  from A c1 have a3: "(\<exists>m. stmt_Exec engine_ok 0 [?sr] [] = (Inl (Panic m), [?sr])) \<and>
      (\<exists>m. stmt_Query engine_ok 0 [?sr] [] = (Inl (Panic m), [?sr]))"
    by blast
  from B b1 have b2: "stmt_Close 0 [?sc] =
      (Some (Errorf ''database/sql/driver: misuse of duckdb driver: double Close of Stmt''), [?sc])"
    by blast
  from D d0 q have d2: "\<exists>r' h2 st2. rows_Close ?r [?sr] = (None, r', h2) \<and>
      deref h2 0 = Some st2 \<and> \<not> rows st2 \<and> \<not> closed st2 \<and>
      (\<exists>h3 st3. stmt_Close 0 h2 = (None, h3) \<and> deref h3 0 = Some st3 \<and> closed st3) \<and>
      (\<forall>m. fst (stmt_Exec engine_ok 0 h2 []) \<noteq> Inl (Panic m)) \<and>
      (\<forall>m. fst (stmt_Query engine_ok 0 h2 []) \<noteq> Inl (Panic m))"
    by blast
  from a1 a2 a3 b1 b2 d0 q d2 show ?thesis by blast
qed

text \<open>
  For C2: a failed \<open>Exec\<close>, and a \<open>Query\<close> that fails while binding, leave an open
  statement open (\<open>stmt_Exec_failure_keeps_open\<close>, \<open>stmt_Query_bind_failure_keeps_open\<close>).
  A \<open>Query\<close> whose execution the engine rejects does not
  (\<open>stmt_Query_engine_error_sets_rows\<close>): \<open>rows\<close> is set before the native call and
  the error return does not clear it.

  C2 fails on the code. A statement with no parameter, just prepared, is queried and
  the engine reports an error: \<open>Query\<close> returns the error and leaves \<open>rows\<close> set,
  with no cursor to close. A second \<open>Query\<close>, and \<open>Exec\<close>, then panic, and \<open>Close\<close>
  fails.
\<close>

theorem stmt_Query_error_leaves_rows_set:
  "stmt_Query engine_err 0 [new_stmt 0] [] =
     (Inl (Errorf ''syntax error''), [(new_stmt 0)\<lparr>rows := True\<rparr>]) \<and>
   stmt_Query engine_ok 0 [(new_stmt 0)\<lparr>rows := True\<rparr>] [] =
     (Inl (Panic ''database/sql/driver: misuse of duckdb driver: Query with active Rows''),
      [(new_stmt 0)\<lparr>rows := True\<rparr>]) \<and>
   stmt_Exec engine_ok 0 [(new_stmt 0)\<lparr>rows := True\<rparr>] [] =
     (Inl (Panic ''database/sql/driver: misuse of duckdb driver: Exec with active Rows''),
      [(new_stmt 0)\<lparr>rows := True\<rparr>]) \<and>
   stmt_Close 0 [(new_stmt 0)\<lparr>rows := True\<rparr>] =
     (Some (Errorf ''database/sql/driver: misuse of duckdb driver: Close with active Rows''),
      [(new_stmt 0)\<lparr>rows := True\<rparr>])"
  by (simp add: stmt_Query_def stmt_Exec_def stmt_Close_def deref_def start_def NumInput_def
      wrap64_def engine_err_def new_stmt_def new_prepared_def)

section \<open>Claim about preparation\<close>

text \<open>
  C10. For every command text, every engine and every heap, \<open>Prepare\<close> returns the
  address of a new open statement and no error: the status of \<open>duckdb_prepare\<close> is
  not read. Whatever the handle holds, a failure shows only later: when executing
  the handle (here with no parameter) is rejected by the engine, \<open>Exec\<close> and \<open>Query\<close>
  on the new statement return the engine's error text.
\<close>

theorem conn_Prepare_never_fails:
  "fst (conn_Prepare E cmd h) = Inr (length h) \<and>
   deref (snd (conn_Prepare E cmd h)) (length h) =
     Some \<lparr>handle = snd (duckdb_prepare E cmd), closed = False, rows = False\<rparr> \<and>
   (nparams (snd (duckdb_prepare E cmd)) = 0 \<and>
    duckdb_execute_prepared E' (snd (duckdb_prepare E cmd)) = Inl msg \<longrightarrow>
      fst (stmt_Exec E' (length h) (snd (conn_Prepare E cmd h)) []) = Inl (Errorf msg) \<and>
      fst (stmt_Query E' (length h) (snd (conn_Prepare E cmd h)) []) = Inl (Errorf msg))"
proof -
  let ?st = "\<lparr>handle = snd (duckdb_prepare E cmd), closed = False, rows = False\<rparr>"
  have r: "fst (conn_Prepare E cmd h) = Inr (length h)"
    by (simp add: conn_Prepare_def split: prod.splits)
  have d: "deref (snd (conn_Prepare E cmd h)) (length h) = Some ?st"
    by (simp add: conn_Prepare_def deref_def split: prod.splits)
  have x: "fst (stmt_Exec E' (length h) (snd (conn_Prepare E cmd h)) []) = Inl (Errorf msg) \<and>
      fst (stmt_Query E' (length h) (snd (conn_Prepare E cmd h)) []) = Inl (Errorf msg)"
    if p: "nparams (snd (duckdb_prepare E cmd)) = 0"
      and e: "duckdb_execute_prepared E' (snd (duckdb_prepare E cmd)) = Inl msg"
  proof -
    have "NumInput ?st = 0" using p by (simp add: NumInput_def wrap64_def)
    then have s: "start E' ?st [] = (None, ?st)" by (simp add: start_def)
    from d s e show ?thesis by (simp add: stmt_Exec_def stmt_Query_def)
  qed
  from r d x show ?thesis by blast
qed

theorem conn_Prepare_never_fails_witness:
  "fst (duckdb_prepare engine_err ''SELEC'') = False \<and>
   fst (conn_Prepare engine_err ''SELEC'' []) = Inr 0 \<and>
   deref (snd (conn_Prepare engine_err ''SELEC'' [])) 0 = Some (new_stmt 0) \<and>
   nparams (snd (duckdb_prepare engine_err ''SELEC'')) = 0 \<and>
   duckdb_execute_prepared engine_err (snd (duckdb_prepare engine_err ''SELEC'')) =
     Inl ''syntax error'' \<and>
   fst (stmt_Exec engine_err 0 (snd (conn_Prepare engine_err ''SELEC'' [])) []) =
     Inl (Errorf ''syntax error'') \<and>
   fst (stmt_Query engine_err 0 (snd (conn_Prepare engine_err ''SELEC'' [])) []) =
     Inl (Errorf ''syntax error'')"
proof -
  have f: "fst (duckdb_prepare engine_err ''SELEC'') = False"
    by (simp add: engine_err_def)
  have p: "snd (duckdb_prepare engine_err ''SELEC'') = new_prepared 0"
    by (simp add: engine_err_def)
  have h: "nparams (snd (duckdb_prepare engine_err ''SELEC'')) = 0 \<and>
      duckdb_execute_prepared engine_err (snd (duckdb_prepare engine_err ''SELEC'')) =
        Inl ''syntax error''"
    by (simp add: engine_err_def new_prepared_def)
  note t = conn_Prepare_never_fails[of engine_err "''SELEC''" "[]" engine_err "''syntax error''"]
  from t have a: "fst (conn_Prepare engine_err ''SELEC'' []) = Inr 0"
    by simp
  from t have b: "deref (snd (conn_Prepare engine_err ''SELEC'' [])) 0 = Some (new_stmt 0)"
    by (simp add: p new_stmt_def)
  from t h have c: "fst (stmt_Exec engine_err 0 (snd (conn_Prepare engine_err ''SELEC'' [])) []) =
        Inl (Errorf ''syntax error'') \<and>
      fst (stmt_Query engine_err 0 (snd (conn_Prepare engine_err ''SELEC'' [])) []) =
        Inl (Errorf ''syntax error'')"
    by simp
  from f a b h c show ?thesis by blast
qed

end
